theory Spec2Isabelle
  imports Complex_Main
begin

text \<open>
  A shallow embedding of the content script of the Fake Form Filler extension
  (class \<open>FakeFormFiller\<close>): field classification, the fillability test, value
  generation, constraint enforcement, the fill session and the clear session.  Each
  definition carries the name of the method it embeds.
\<close>

section \<open>Strings as the content script uses them\<close>

text \<open>
  JavaScript strings are modelled as \<^typ>\<open>string\<close>.  Only the string operations the
  content script calls are defined: \<open>toLowerCase\<close>, \<open>trim\<close>, \<open>includes\<close>, and
  \<open>RegExp.test\<close> for the patterns of the script, all of which are alternatives of
  literal words, so a test is a substring search for one of the words.
\<close>

definition upper_letters :: string where
  "upper_letters = ''ABCDEFGHIJKLMNOPQRSTUVWXYZ''"

definition lower_letters :: string where
  "lower_letters = ''abcdefghijklmnopqrstuvwxyz''"

definition lower_char :: "char \<Rightarrow> char" where
  "lower_char c = (case map_of (zip upper_letters lower_letters) c of Some d \<Rightarrow> d | None \<Rightarrow> c)"

definition toLowerCase :: "string \<Rightarrow> string" where
  "toLowerCase s = map lower_char s"

definition is_space :: "char \<Rightarrow> bool" where
  "is_space c = (c = CHR '' '' \<or> c = CHR 0x09 \<or> c = CHR 0x0A \<or> c = CHR 0x0B
                 \<or> c = CHR 0x0C \<or> c = CHR 0x0D)"

definition trim :: "string \<Rightarrow> string" where
  "trim s = rev (dropWhile is_space (rev (dropWhile is_space s)))"

fun starts_with :: "string \<Rightarrow> string \<Rightarrow> bool" where
  "starts_with s [] = True"
| "starts_with [] (p # ps) = False"
| "starts_with (c # cs) (p # ps) = (c = p \<and> starts_with cs ps)"

fun str_includes :: "string \<Rightarrow> string \<Rightarrow> bool" where
  "str_includes [] pat = (pat = [])"
| "str_includes (c # cs) pat = (starts_with (c # cs) pat \<or> str_includes cs pat)"

definition test_any :: "string list \<Rightarrow> string \<Rightarrow> bool" where
  "test_any words s = list_ex (str_includes s) words"

definition join_with :: "string \<Rightarrow> string list \<Rightarrow> string" where
  "join_with sep xs = (case xs of [] \<Rightarrow> [] | y # ys \<Rightarrow> y @ concat (map (\<lambda>z. sep @ z) ys))"

section \<open>Controls\<close>

text \<open>
  A form control as the script reads and writes it.  Every field is a DOM property or
  the answer of a DOM query the script makes on the element:
  \<open>el_label_for\<close> is the text of the element found by \<open>label[for=id]\<close>,
  \<open>el_parent_label\<close> the text of \<open>closest("label")\<close>, \<open>el_prev_sibling\<close> the tag name
  and text of \<open>previousElementSibling\<close>; \<open>el_min\<close> and \<open>el_max\<close> are \<open>None\<close> where the
  property is undefined (textarea, select).  The options of a select carry their
  selectedness; \<open>field.value\<close> of a select is computed from it.
\<close>

record sel_option =
  opt_value :: string
  opt_text :: string
  opt_selected :: bool

record control =
  el_tagName :: string
  el_type :: string
  el_name :: string
  el_id :: string
  el_placeholder :: string
  el_autocomplete :: string
  el_className :: string
  el_classList :: "string list"
  el_value :: string
  el_checked :: bool
  el_disabled :: bool
  el_readOnly :: bool
  el_required :: bool
  el_pattern :: string
  el_no_autofill :: bool
  el_maxlength_attr :: "string option"
  el_maxLength :: int
  el_min :: "string option"
  el_max :: "string option"
  el_options :: "sel_option list"
  el_display :: string
  el_visibility :: string
  el_offsetParent_null :: bool
  el_label_for :: "string option"
  el_parent_label :: "string option"
  el_prev_sibling :: "(string \<times> string) option"
  el_parent_limit :: "string option"
  el_ant_wrapper :: bool
  el_ant_span_checked :: "bool option"
  el_outline :: string
  el_backgroundColor :: string

definition field_value :: "control \<Rightarrow> string" where
  "field_value f =
     (if toLowerCase (el_tagName f) = ''select''
      then (case filter opt_selected (el_options f) of [] \<Rightarrow> [] | x # _ \<Rightarrow> opt_value x)
      else el_value f)"

record settings =
  autoFillEnabled :: bool
  visualFeedbackEnabled :: bool
  skipHiddenFields :: bool
  fillDelay :: int
  enabledFieldTypes :: "string \<rightharpoonup> bool"

definition defaultSettings :: settings where
  "defaultSettings =
     \<lparr> autoFillEnabled = True, visualFeedbackEnabled = True, skipHiddenFields = True,
       fillDelay = 100,
       enabledFieldTypes = map_of
         [(''text'', True), (''email'', True), (''password'', True), (''textarea'', True),
          (''select'', True), (''checkbox'', True), (''radio'', True), (''date'', True),
          (''number'', True), (''url'', True), (''tel'', True)] \<rparr>"

section \<open>Field classification\<close>

definition isFieldEmpty :: "control \<Rightarrow> bool" where
  "isFieldEmpty f =
     (let tag = toLowerCase (el_tagName f); type = toLowerCase (el_type f) in
      if type = ''checkbox'' \<or> type = ''radio'' then \<not> el_checked f
      else if tag = ''select'' then field_value f = [] \<or> trim (field_value f) = []
      else trim (field_value f) = [])"

definition getFieldLabels :: "control \<Rightarrow> string list" where
  "getFieldLabels f =
     filter (\<lambda>l. length l > 0)
       ((if el_id f \<noteq> [] then (case el_label_for f of Some t \<Rightarrow> [trim t] | None \<Rightarrow> []) else [])
        @ (case el_parent_label f of Some t \<Rightarrow> [trim t] | None \<Rightarrow> [])
        @ (case el_prev_sibling f of
             Some (tg, t) \<Rightarrow> (if tg = ''LABEL'' \<or> tg = ''SPAN'' then [trim t] else [])
           | None \<Rightarrow> []))"

definition allText :: "control \<Rightarrow> string" where
  "allText f =
     toLowerCase (el_name f) @ '' '' @ toLowerCase (el_id f) @ '' ''
     @ toLowerCase (el_placeholder f) @ '' '' @ toLowerCase (el_autocomplete f) @ '' ''
     @ toLowerCase (el_className f) @ '' '' @ toLowerCase (join_with '' '' (getFieldLabels f))"

definition email_words :: "string list" where
  "email_words = [''email'', ''e-mail'']"

definition password_words :: "string list" where
  "password_words = [''password'', ''pwd'', ''pass'']"

definition phone_words :: "string list" where
  "phone_words = [''phone'', ''tel'', ''mobile'', ''cell'']"

definition url_words :: "string list" where
  "url_words = [''url'', ''website'', ''homepage'', ''link'']"

definition date_words :: "string list" where
  "date_words = [''date'', ''birth'', ''dob'', ''birthday'']"

definition number_words :: "string list" where
  "number_words = [''age'', ''year'', ''amount'', ''price'', ''quantity'', ''count'', ''number'']"

definition detectFieldType :: "control \<Rightarrow> string" where
  "detectFieldType f =
     (let type = toLowerCase (el_type f); txt = allText f;
          tag = toLowerCase (el_tagName f) in
      if type = ''email'' \<or> test_any email_words txt then ''email''
      else if type = ''password'' \<or> test_any password_words txt then ''password''
      else if type = ''tel'' \<or> test_any phone_words txt then ''phone''
      else if type = ''url'' \<or> test_any url_words txt then ''url''
      else if type = ''date'' \<or> type = ''datetime-local'' \<or> test_any date_words txt
        then ''date''
      else if type = ''number'' \<or> type = ''range'' \<or> test_any number_words txt
        then ''number''
      else if test_any [''name'', ''firstname'', ''lastname'', ''fullname'', ''givenname'',
                        ''surname''] txt
        then (if test_any [''first'', ''given''] txt then ''firstName''
              else if test_any [''last'', ''sur'', ''family''] txt then ''lastName''
              else if test_any [''middle''] txt then ''middleName''
              else if test_any [''full'', ''complete''] txt then ''fullName''
              else ''firstName'')
      else if test_any [''address'', ''street'', ''city'', ''state'', ''zip'', ''postal'',
                        ''country''] txt
        then (if test_any [''street'', ''address1'', ''addr1''] txt then ''streetAddress''
              else if test_any [''city'', ''town''] txt then ''city''
              else if test_any [''state'', ''province'', ''region''] txt then ''state''
              else if test_any [''zip'', ''postal''] txt then ''zipCode''
              else if test_any [''country''] txt then ''country''
              else ''streetAddress'')
      else if test_any [''company'', ''organization'', ''employer'', ''business''] txt
        then ''company''
      else if test_any [''job'', ''title'', ''position'', ''role'', ''occupation''] txt
        then ''jobTitle''
      else if test_any [''credit'', ''card'', ''cc'', ''cardnumber''] txt then ''creditCard''
      else if tag = ''textarea''
        then (if test_any [''comment'', ''message'', ''description'', ''bio'', ''about''] txt
              then ''paragraph'' else ''paragraph'')
      else if tag = ''select'' then ''select''
      else if type = ''checkbox'' then ''checkbox''
      else if type = ''radio'' then ''radio''
      else ''text'')"

definition semanticToBase :: "string \<rightharpoonup> string" where
  "semanticToBase = map_of
     [(''firstName'', ''text''), (''lastName'', ''text''), (''middleName'', ''text''),
      (''fullName'', ''text''), (''streetAddress'', ''text''), (''city'', ''text''),
      (''state'', ''text''), (''zipCode'', ''text''), (''country'', ''text''),
      (''company'', ''text''), (''jobTitle'', ''text''), (''creditCard'', ''text''),
      (''paragraph'', ''textarea''), (''phone'', ''tel'')]"

definition getBaseType :: "control \<Rightarrow> string \<Rightarrow> string" where
  "getBaseType f detectedType =
     (let tag = toLowerCase (el_tagName f); type = toLowerCase (el_type f) in
      if tag = ''textarea'' then ''textarea''
      else if type = ''email'' then ''email''
      else if type = ''password'' then ''password''
      else if type = ''tel'' then ''tel''
      else if type = ''url'' then ''url''
      else if type = ''date'' \<or> type = ''datetime-local'' then ''date_disabled''
      else if type = ''number'' \<or> type = ''range'' then ''number''
      else if type = ''checkbox'' then ''checkbox''
      else if type = ''radio'' then ''radio''
      else if tag = ''select'' then ''select''
      else (case semanticToBase detectedType of Some b \<Rightarrow> b | None \<Rightarrow> ''text''))"

definition is_captcha :: "control \<Rightarrow> bool" where
  "is_captcha f =
     (let n = toLowerCase (el_name f); i = toLowerCase (el_id f) in
      str_includes n ''captcha'' \<or> str_includes i ''captcha''
      \<or> str_includes n ''recaptcha'' \<or> str_includes i ''recaptcha'')"

definition isFieldFillable :: "settings \<Rightarrow> control \<Rightarrow> bool" where
  "isFieldFillable cfg f =
     (let detectedType = detectFieldType f; baseType = getBaseType f detectedType in
      if detectedType = ''date'' then False
      else if enabledFieldTypes cfg baseType \<noteq> Some True then False
      else if skipHiddenFields cfg
              \<and> (el_display f = ''none'' \<or> el_visibility f = ''hidden''
                 \<or> el_type f = ''hidden'' \<or> el_offsetParent_null f) then False
      else if is_captcha f then False
      else if el_disabled f \<or> el_readOnly f then False
      else if el_no_autofill f then False
      else if \<not> isFieldEmpty f then False
      else True)"

definition getFieldIdentifier :: "control \<Rightarrow> string" where
  "getFieldIdentifier f =
     (if el_name f \<noteq> [] then el_name f
      else if el_id f \<noteq> [] then el_id f
      else if el_placeholder f \<noteq> [] then el_placeholder f
      else ''unnamed-field'')"

section \<open>Values and the platform\<close>

text \<open>
  A JavaScript number is \<open>NaN\<close> or a finite real (arithmetic is exact; infinities and
  rounding of doubles are not represented).  A value is what \<open>generateFakeData\<close> can
  return: a string, a number, a boolean, an array of strings, or \<open>undefined\<close>/\<open>null\<close>.
\<close>

datatype jsnum = NaN | Fin real

datatype jsval = VStr string | VNum jsnum | VBool bool | VArr "string list" | VUndef

text \<open>
  What the script obtains from outside while it processes one field.  \<open>pf_faker\<close> is
  \<open>window.faker\<close>: \<open>None\<close> when the library is not loaded, otherwise a lookup of a
  member by its dotted path (\<open>None\<close>: the member is missing), and a member maps its
  arguments to the value it returns or (\<open>Inl\<close>) the message of what it throws.
  \<open>pf_random k\<close> is the result of the \<open>k\<close>-th call of \<open>Math.random\<close>;
  \<open>pf_today_iso\<close> is \<open>new Date().toISOString()\<close>; \<open>pf_Number\<close>, \<open>pf_String\<close>,
  \<open>pf_base36\<close>, \<open>pf_date_ms\<close> and \<open>pf_iso_of_ms\<close> are the built-in conversions
  \<open>Number(s)\<close>, \<open>String(x)\<close>, \<open>x.toString(36)\<close>, \<open>new Date(s).getTime()\<close> (\<open>None\<close>
  for an invalid date) and \<open>new Date(ms).toISOString()\<close>; \<open>pf_send_error\<close> is the
  message of the exception \<open>chrome.runtime.sendMessage\<close> raises, if it raises.
\<close>

type_synonym faker = "string \<Rightarrow> (jsval list \<Rightarrow> string + jsval) option"

record platform =
  pf_faker :: "faker option"
  pf_random :: "nat \<Rightarrow> real"
  pf_today_iso :: string
  pf_Number :: "string \<Rightarrow> jsnum"
  pf_String :: "real \<Rightarrow> string"
  pf_base36 :: "real \<Rightarrow> string"
  pf_date_ms :: "string \<Rightarrow> int option"
  pf_iso_of_ms :: "int \<Rightarrow> string"
  pf_send_error :: "string option"

definition is_digit :: "char \<Rightarrow> bool" where
  "is_digit c = (c \<in> set ''0123456789'')"

definition digit_val :: "char \<Rightarrow> nat" where
  "digit_val c =
     (case map_of (zip ''0123456789'' [0, 1, 2, 3, 4, 5, 6, 7, 8, 9]) c of
        Some d \<Rightarrow> d | None \<Rightarrow> 0)"

definition dec_value :: "string \<Rightarrow> nat" where
  "dec_value ds = foldl (\<lambda>acc c. 10 * acc + digit_val c) 0 ds"

definition parseInt :: "string \<Rightarrow> int option" where
  "parseInt s =
     (let s1 = dropWhile is_space s;
          neg = (case s1 of c # _ \<Rightarrow> c = CHR ''-'' | [] \<Rightarrow> False);
          s2 = (case s1 of c # r \<Rightarrow> (if c = CHR ''-'' \<or> c = CHR ''+'' then r else s1) | [] \<Rightarrow> s1);
          ds = takeWhile is_digit s2 in
      if ds = [] then None
      else Some (if neg then - int (dec_value ds) else int (dec_value ds)))"

definition num_of :: "int option \<Rightarrow> jsnum" where
  "num_of x = (case x of None \<Rightarrow> NaN | Some i \<Rightarrow> Fin (real_of_int i))"

fun num_lt :: "jsnum \<Rightarrow> jsnum \<Rightarrow> bool" where
  "num_lt (Fin a) (Fin b) = (a < b)"
| "num_lt _ _ = False"

fun num_add :: "jsnum \<Rightarrow> jsnum \<Rightarrow> jsnum" where
  "num_add (Fin a) (Fin b) = Fin (a + b)"
| "num_add _ _ = NaN"

definition to_str :: "platform \<Rightarrow> jsval \<Rightarrow> string" where
  "to_str p v =
     (case v of VStr s \<Rightarrow> s | VNum NaN \<Rightarrow> ''NaN'' | VNum (Fin r) \<Rightarrow> pf_String p r
      | VBool b \<Rightarrow> (if b then ''true'' else ''false'')
      | VArr xs \<Rightarrow> join_with '','' xs | VUndef \<Rightarrow> ''undefined'')"

definition to_num :: "platform \<Rightarrow> jsval \<Rightarrow> jsnum" where
  "to_num p v =
     (case v of VNum n \<Rightarrow> n | VStr s \<Rightarrow> pf_Number p s
      | VBool b \<Rightarrow> Fin (if b then 1 else 0)
      | VArr xs \<Rightarrow> pf_Number p (join_with '','' xs) | VUndef \<Rightarrow> NaN)"

definition truthy :: "jsval \<Rightarrow> bool" where
  "truthy v =
     (case v of VStr s \<Rightarrow> s \<noteq> [] | VNum NaN \<Rightarrow> False | VNum (Fin r) \<Rightarrow> r \<noteq> 0
      | VBool b \<Rightarrow> b | VArr xs \<Rightarrow> True | VUndef \<Rightarrow> False)"

definition rand_int :: "platform \<Rightarrow> nat \<Rightarrow> real \<Rightarrow> real \<Rightarrow> real" where
  "rand_int p k scale offset = real_of_int \<lfloor>offset + pf_random p k * scale\<rfloor>"

section \<open>Value generation\<close>

definition getFallbackData :: "platform \<Rightarrow> string \<Rightarrow> jsval" where
  "getFallbackData p fieldType =
     (let fallbacks = map_of
        [(''email'', VStr ''test@example.com''), (''password'', VStr ''TempPass123!''),
         (''phone'', VStr ''+1 555 123 4567''), (''url'', VStr ''https://example.com''),
         (''firstName'', VStr ''Alex''), (''lastName'', VStr ''Smith''),
         (''middleName'', VStr ''Lee''), (''fullName'', VStr ''Alex Smith''),
         (''streetAddress'', VStr ''123 Main St''), (''city'', VStr ''Springfield''),
         (''state'', VStr ''CA''), (''zipCode'', VStr ''90210''),
         (''country'', VStr ''United States''), (''company'', VStr ''Acme Corp''),
         (''jobTitle'', VStr ''Engineer''), (''creditCard'', VStr ''4111111111111111''),
         (''date'', VStr (takeWhile (\<lambda>c. c \<noteq> CHR ''T'') (pf_today_iso p))),
         (''number'', VNum (Fin (rand_int p 0 100 0 + 1))),
         (''paragraph'', VStr ''Lorem ipsum dolor sit amet, consectetur adipiscing elit.''),
         (''text'', VStr ''Sample Text'')] in
      case fallbacks fieldType of
        Some v \<Rightarrow> (if truthy v then v else VStr ''Sample Data'')
      | None \<Rightarrow> VStr ''Sample Data'')"

definition handleSelectField :: "platform \<Rightarrow> control option \<Rightarrow> string + string" where
  "handleSelectField p fo =
     (case fo of None \<Rightarrow> Inr []
      | Some f \<Rightarrow>
          if el_options f = [] then Inr []
          else
            let validOptions = filter
                  (\<lambda>opt. opt_value opt \<noteq> [] \<and> trim (opt_value opt) \<noteq> []
                         \<and> trim (opt_text opt) \<noteq> [])
                  (el_options f) in
            if length validOptions = 0 then Inr []
            else
              let i = \<lfloor>pf_random p 0 * real (length validOptions)\<rfloor> in
              if 0 \<le> i \<and> i < int (length validOptions)
              then Inr (opt_value (validOptions ! nat i))
              else Inl ''TypeError'')"

definition call_member :: "faker \<Rightarrow> string \<Rightarrow> jsval list \<Rightarrow> string + jsval" where
  "call_member fk m args = (case fk m of None \<Rightarrow> Inl ''TypeError'' | Some g \<Rightarrow> g args)"

definition if_member :: "faker \<Rightarrow> string \<Rightarrow> jsval list \<Rightarrow> (string + jsval) \<Rightarrow> string + jsval" where
  "if_member fk m args alt = (case fk m of None \<Rightarrow> alt | Some g \<Rightarrow> g args)"

definition digits_from :: "platform \<Rightarrow> nat \<Rightarrow> string" where
  "digits_from p n = concat (map (\<lambda>k. pf_String p (rand_int p k 10 0)) [0..<n])"

definition randomInt :: "platform \<Rightarrow> real \<Rightarrow> real \<Rightarrow> jsval" where
  "randomInt p lo hi =
     (let viaFaker =
        (case pf_faker p of None \<Rightarrow> None
         | Some fk \<Rightarrow> (case fk ''number.int'' of None \<Rightarrow> None
                       | Some g \<Rightarrow> (case g [VNum (Fin lo), VNum (Fin hi)] of
                                       Inl _ \<Rightarrow> None | Inr v \<Rightarrow> Some v))) in
      case viaFaker of
        Some v \<Rightarrow> v
      | None \<Rightarrow> VNum (Fin (rand_int p 0 (hi - lo + 1) 0 + lo)))"

definition gen_firstName :: "faker \<Rightarrow> string + jsval" where
  "gen_firstName fk =
     if_member fk ''person.firstName'' [] (if_member fk ''name.firstName'' [] (Inr (VStr ''Alex'')))"

definition gen_lastName :: "faker \<Rightarrow> string + jsval" where
  "gen_lastName fk =
     if_member fk ''person.lastName'' [] (if_member fk ''name.lastName'' [] (Inr (VStr ''Smith'')))"

definition caught :: "string + jsval \<Rightarrow> jsval" where
  "caught r = (case r of Inl _ \<Rightarrow> VStr ''Sample Data'' | Inr v \<Rightarrow> v)"

definition pow10 :: "int \<Rightarrow> real" where
  "pow10 d = (if 0 \<le> d then 10 ^ nat d else 1 / 10 ^ nat (- d))"

definition gen_number :: "platform \<Rightarrow> faker \<Rightarrow> control option \<Rightarrow> string + jsval" where
  "gen_number p fk fo =
     (case fo of
        None \<Rightarrow> call_member fk ''number.int'' [VNum (Fin 1), VNum (Fin 100)]
      | Some f \<Rightarrow>
          if str_includes (el_name f) ''aadhaarNumber''
            then if_member fk ''string.numeric'' [VNum (Fin 12)] (Inr (VStr (digits_from p 12)))
          else if str_includes (el_name f) ''yearsAttended''
            then call_member fk ''number.int'' [VNum (Fin 1), VNum (Fin 15)]
          else
            let hasMin = (case el_min f of None \<Rightarrow> False | Some s \<Rightarrow> s \<noteq> []);
                hasMax = (case el_max f of None \<Rightarrow> False | Some s \<Rightarrow> s \<noteq> []);
                maxLength =
                  (if el_maxLength f > 0 then Some (el_maxLength f)
                   else (case el_maxlength_attr f of
                           None \<Rightarrow> None
                         | Some a \<Rightarrow> (if a = [] then None else parseInt a)));
                mn = (if hasMin then num_of (parseInt (case el_min f of Some s \<Rightarrow> s | None \<Rightarrow> []))
                      else Fin 0);
                mx0 = (if hasMax
                         then num_of (parseInt (case el_max f of Some s \<Rightarrow> s | None \<Rightarrow> []))
                       else (case maxLength of
                               Some l \<Rightarrow> (if l \<noteq> 0 then Fin (pow10 (min l 12) - 1)
                                           else num_add mn (Fin 100))
                             | None \<Rightarrow> num_add mn (Fin 100)));
                mx = (if num_lt mx0 mn then mn else mx0) in
            call_member fk ''number.int'' [VNum mn, VNum mx])"

definition gen_paragraph :: "platform \<Rightarrow> faker \<Rightarrow> control option \<Rightarrow> string + jsval" where
  "gen_paragraph p fk fo =
     (case if_member fk ''lorem.paragraph'' []
             (Inr (VStr ''Lorem ipsum dolor sit amet, consectetur adipiscing elit.'')) of
        Inl e \<Rightarrow> Inl e
      | Inr paragraph0 \<Rightarrow>
          (case fo of
             None \<Rightarrow> Inr paragraph0
           | Some f \<Rightarrow>
               let maxLength =
                     (if el_maxLength f \<noteq> 0 then VNum (Fin (real_of_int (el_maxLength f)))
                      else (case el_maxlength_attr f of
                              None \<Rightarrow> VUndef
                            | Some a \<Rightarrow> (if a = [] then VUndef else VStr a)));
                   actualLimit =
                     (case el_parent_limit f of
                        None \<Rightarrow> maxLength
                      | Some d \<Rightarrow>
                          (case parseInt d of
                             None \<Rightarrow> maxLength
                           | Some t \<Rightarrow>
                               if t > 0
                               then (if truthy maxLength
                                     then (case to_num p maxLength of
                                             NaN \<Rightarrow> VNum NaN
                                           | Fin a \<Rightarrow> VNum (Fin (min a (real_of_int t))))
                                     else VNum (Fin (real_of_int t)))
                               else maxLength)) in
               if truthy actualLimit \<and> num_lt (Fin 0) (to_num p actualLimit)
               then
                 (case parseInt (to_str p actualLimit) of
                    None \<Rightarrow> Inr paragraph0
                  | Some maxLen \<Rightarrow>
                      let chosen =
                        (if maxLen < 50
                         then (case fk ''lorem.words'' of
                                 None \<Rightarrow> Inr (VStr ''Sample text'')
                               | Some g \<Rightarrow>
                                   (case g [VNum (Fin (real_of_int (min (maxLen div 5) 10)))] of
                                      Inl e \<Rightarrow> Inl e
                                    | Inr (VArr ws) \<Rightarrow> Inr (VStr (join_with '' '' ws))
                                    | Inr _ \<Rightarrow> Inl ''TypeError''))
                         else if maxLen < 200
                         then if_member fk ''lorem.sentence''
                                [VNum (Fin (real_of_int (min (maxLen div 8) 20)))]
                                (Inr (VStr ''Sample sentence text.''))
                         else Inr paragraph0) in
                      (case chosen of
                         Inl e \<Rightarrow> Inl e
                       | Inr (VStr t) \<Rightarrow>
                           Inr (VStr (if int (length t) > maxLen then take (nat maxLen) t else t))
                       | Inr (VArr ws) \<Rightarrow>
                           (if int (length ws) > maxLen then Inl ''TypeError'' else Inr (VArr ws))
                       | Inr VUndef \<Rightarrow> Inl ''TypeError''
                       | Inr v \<Rightarrow> Inr v))
               else Inr paragraph0))"

definition gen_text :: "platform \<Rightarrow> faker \<Rightarrow> control option \<Rightarrow> string + jsval" where
  "gen_text p fk fo =
     (let name = (case fo of None \<Rightarrow> [] | Some f \<Rightarrow> toLowerCase (el_name f)) in
      if str_includes name ''username''
        then if_member fk ''internet.userName'' []
               (Inr (VStr (''user_'' @ to_str p (randomInt p 1000 9999))))
      else if str_includes name ''age'' then Inr (randomInt p 18 80)
      else if_member fk ''lorem.words'' [VNum (Fin 2)] (Inr (VStr ''Sample Text'')))"

definition generate_try :: "platform \<Rightarrow> faker \<Rightarrow> string \<Rightarrow> control option \<Rightarrow> string + jsval" where
  "generate_try p fk fieldType fo =
     (if fieldType = ''date'' then Inr (VStr [])
      else if fieldType = ''email''
        then if_member fk ''internet.email'' []
               (Inr (VStr (''user'' @ pf_String p (rand_int p 0 1000 0) @ ''@example.com'')))
      else if fieldType = ''password''
        then if_member fk ''internet.password'' []
               (Inr (VStr (drop 2 (pf_base36 p (pf_random p 0)) @ ''A1!'')))
      else if fieldType = ''phone''
        then if_member fk ''phone.number'' []
               (Inr (VStr (''+1 '' @ pf_String p (rand_int p 0 900 100) @ '' ''
                           @ pf_String p (rand_int p 1 900 100) @ '' ''
                           @ pf_String p (rand_int p 2 9000 1000))))
      else if fieldType = ''url''
        then if_member fk ''internet.url'' []
               (Inr (VStr (''https://www.example.com/'' @ pf_String p (rand_int p 0 1000 0))))
      else if fieldType = ''firstName'' then gen_firstName fk
      else if fieldType = ''lastName'' then gen_lastName fk
      else if fieldType = ''middleName''
        then if_member fk ''person.middleName'' []
               (if_member fk ''name.middleName'' [] (Inr (VStr ''Lee'')))
      else if fieldType = ''fullName''
        then if_member fk ''person.fullName'' []
               (Inr (VStr (to_str p (caught (gen_firstName fk)) @ '' ''
                           @ to_str p (caught (gen_lastName fk)))))
      else if fieldType = ''streetAddress''
        then if_member fk ''location.streetAddress'' []
               (if_member fk ''address.streetAddress'' [] (Inr (VStr ''123 Main St'')))
      else if fieldType = ''city''
        then if_member fk ''location.city'' []
               (if_member fk ''address.city'' [] (Inr (VStr ''Springfield'')))
      else if fieldType = ''state''
        then if_member fk ''location.state'' []
               (if_member fk ''address.state'' [] (Inr (VStr ''CA'')))
      else if fieldType = ''zipCode''
        then if_member fk ''location.zipCode'' []
               (if_member fk ''address.zipCode'' [] (Inr (VStr ''90210'')))
      else if fieldType = ''country''
        then if_member fk ''location.country'' []
               (if_member fk ''address.country'' [] (Inr (VStr ''United States'')))
      else if fieldType = ''company''
        then if_member fk ''company.name'' [] (Inr (VStr ''Acme Corp''))
      else if fieldType = ''jobTitle''
        then if_member fk ''person.jobTitle'' [] (Inr (VStr ''Engineer''))
      else if fieldType = ''creditCard''
        then if_member fk ''finance.creditCardNumber'' [] (Inr (VStr (digits_from p 16)))
      else if fieldType = ''number'' then gen_number p fk fo
      else if fieldType = ''paragraph'' then gen_paragraph p fk fo
      else if fieldType = ''select''
        then (case handleSelectField p fo of Inl e \<Rightarrow> Inl e | Inr v \<Rightarrow> Inr (VStr v))
      else if fieldType = ''checkbox'' then Inr (VBool (pf_random p 0 > 1 / 2))
      else if fieldType = ''radio'' then Inr (VBool (pf_random p 0 > 1 / 2))
      else gen_text p fk fo)"

definition generateFakeData :: "platform \<Rightarrow> string \<Rightarrow> control option \<Rightarrow> jsval" where
  "generateFakeData p fieldType fo =
     (case pf_faker p of
        None \<Rightarrow> getFallbackData p fieldType
      | Some fk \<Rightarrow> caught (generate_try p fk fieldType fo))"

section \<open>Constraints\<close>

definition text_like :: "control \<Rightarrow> bool" where
  "text_like f =
     (toLowerCase (el_tagName f) = ''textarea'' \<or> el_type f = ''text'' \<or> el_type f = ''email''
      \<or> el_type f = ''url'' \<or> el_type f = ''password'' \<or> el_type f = ''search''
      \<or> el_type f = ''tel'')"

definition is_iso_date :: "string \<Rightarrow> bool" where
  "is_iso_date s =
     (length s = 10 \<and> list_all is_digit (take 4 s) \<and> s ! 4 = CHR ''-''
      \<and> list_all is_digit (take 2 (drop 5 s)) \<and> s ! 7 = CHR ''-''
      \<and> list_all is_digit (drop 8 s))"

definition constrain_length :: "control \<Rightarrow> jsval \<Rightarrow> jsval" where
  "constrain_length f v =
     (let maxLength =
            (case el_maxlength_attr f of
               None \<Rightarrow> Some (el_maxLength f)
             | Some a \<Rightarrow> (if a = [] then Some (el_maxLength f) else parseInt a)) in
      case v of
        VStr s \<Rightarrow>
          (if text_like f
           then (case maxLength of
                   None \<Rightarrow> v
                 | Some m \<Rightarrow> (if m > 0 \<and> int (length s) > m then VStr (take (nat m) s) else v))
           else v)
      | _ \<Rightarrow> v)"

definition bound_of :: "platform \<Rightarrow> string option \<Rightarrow> jsnum option" where
  "bound_of p a =
     (case a of None \<Rightarrow> Some NaN | Some s \<Rightarrow> (if s = [] then None else Some (pf_Number p s)))"

definition constrain_number :: "platform \<Rightarrow> control \<Rightarrow> jsval \<Rightarrow> jsval" where
  "constrain_number p f v =
     (if el_type f = ''number''
      then
        (case to_num p v of
           NaN \<Rightarrow> v
         | Fin x \<Rightarrow>
             let n1 = (case bound_of p (el_min f) of
                         None \<Rightarrow> Fin x
                       | Some lo \<Rightarrow> (if num_lt (Fin x) lo then lo else Fin x));
                 n2 = (case bound_of p (el_max f) of
                         None \<Rightarrow> n1
                       | Some hi \<Rightarrow> (if num_lt hi n1 then hi else n1)) in
             VNum n2)
      else v)"

definition date_bound :: "platform \<Rightarrow> string option \<Rightarrow> int option" where
  "date_bound p a =
     (case a of None \<Rightarrow> None | Some s \<Rightarrow> (if s = [] then None else pf_date_ms p s))"

definition constrain_date :: "platform \<Rightarrow> control \<Rightarrow> jsval \<Rightarrow> jsval" where
  "constrain_date p f v =
     (if el_type f = ''date''
      then
        (case v of
           VStr s \<Rightarrow>
             let s1 = (if \<not> is_iso_date s \<and> s \<noteq> []
                       then (case pf_date_ms p s of
                               None \<Rightarrow> s
                             | Some ms \<Rightarrow> takeWhile (\<lambda>c. c \<noteq> CHR ''T'') (pf_iso_of_ms p ms))
                       else s) in
             (case pf_date_ms p s1 of
                None \<Rightarrow> VStr s1
              | Some dv \<Rightarrow>
                  let s2 = (case date_bound p (el_min f) of
                              None \<Rightarrow> s1
                            | Some lo \<Rightarrow> (if dv < lo then (case el_min f of Some m \<Rightarrow> m | None \<Rightarrow> s1)
                                          else s1));
                      s3 = (case date_bound p (el_max f) of
                              None \<Rightarrow> s2
                            | Some hi \<Rightarrow> (if dv > hi then (case el_max f of Some m \<Rightarrow> m | None \<Rightarrow> s2)
                                          else s2)) in
                  VStr s3)
         | _ \<Rightarrow> v)
      else v)"

definition applyConstraints :: "platform \<Rightarrow> control \<Rightarrow> jsval \<Rightarrow> string \<Rightarrow> jsval" where
  "applyConstraints p f v fieldType =
     (if v = VUndef then v
      else constrain_date p f (constrain_number p f (constrain_length f v)))"

section \<open>Writing to a control\<close>

text \<open>
  The writes the script performs.  Assigning \<open>value\<close> of a select selects the first
  option with that value and deselects the others.  Assigning \<open>value\<close> of an input or a
  textarea stores the string, except that a file input accepts only the empty string
  and raises \<open>InvalidStateError\<close> otherwise (the native setter and the plain assignment
  behave alike); the browser's sanitisation of the stored text is not represented.
  Dispatching \<open>input\<close>, \<open>change\<close> and \<open>blur\<close> (\<open>triggerChangeEvents\<close>) changes no
  property of the control: the listeners are page code.
\<close>

fun select_first :: "string \<Rightarrow> sel_option list \<Rightarrow> sel_option list" where
  "select_first v [] = []"
| "select_first v (x # xs) =
     (if opt_value x = v then x\<lparr>opt_selected := True\<rparr> # map (\<lambda>y. y\<lparr>opt_selected := False\<rparr>) xs
      else x\<lparr>opt_selected := False\<rparr> # select_first v xs)"

definition set_value :: "control \<Rightarrow> string \<Rightarrow> string + control" where
  "set_value f v =
     (if el_type f = ''file'' \<and> v \<noteq> [] then Inl ''InvalidStateError''
      else Inr (f\<lparr>el_value := v\<rparr>))"

definition assign_value :: "control \<Rightarrow> string \<Rightarrow> string + control" where
  "assign_value f v =
     (if toLowerCase (el_tagName f) = ''select''
      then Inr (f\<lparr>el_options := select_first v (el_options f)\<rparr>)
      else set_value f v)"

section \<open>Scanning\<close>

record fieldData =
  fd_element :: control
  fd_type :: string
  fd_detectedType :: string
  fd_name :: string
  fd_id :: string
  fd_placeholder :: string
  fd_required :: bool
  fd_readonly :: bool
  fd_disabled :: bool
  fd_maxLength :: jsval
  fd_pattern :: string
  fd_autocomplete :: string
  fd_labels :: "string list"

definition analyzeField :: "settings \<Rightarrow> control \<Rightarrow> fieldData option" where
  "analyzeField cfg f =
     (if \<not> isFieldFillable cfg f then None
      else Some \<lparr> fd_element = f,
                  fd_type = (if el_type f \<noteq> [] then el_type f else toLowerCase (el_tagName f)),
                  fd_detectedType = detectFieldType f,
                  fd_name = getFieldIdentifier f,
                  fd_id = el_id f,
                  fd_placeholder = el_placeholder f,
                  fd_required = el_required f,
                  fd_readonly = el_readOnly f,
                  fd_disabled = el_disabled f,
                  fd_maxLength =
                    (if el_maxLength f \<noteq> 0 then VNum (Fin (real_of_int (el_maxLength f)))
                     else (case el_maxlength_attr f of
                             None \<Rightarrow> VUndef
                           | Some a \<Rightarrow> (if a = [] then VUndef else VStr a))),
                  fd_pattern = el_pattern f,
                  fd_autocomplete = el_autocomplete f,
                  fd_labels = getFieldLabels f \<rparr>)"

text \<open>
  A document is its forms and the controls outside every form, in document order.  A
  form lists its descendant controls.  \<open>findStandaloneFields\<close> keeps exactly the
  controls outside every form: its Ant Design test is reached only for such controls
  and cannot change the outcome.  \<open>scanForms_silent\<close> is \<open>scanForms(true)\<close>, the call
  \<open>fillForms\<close> makes; the retry of a non-silent scan is not part of it.
\<close>

record form_el =
  form_id :: string
  form_controls :: "control list"

datatype node = FormNode form_el | LooseNode control

fun forms_of :: "node list \<Rightarrow> form_el list" where
  "forms_of [] = []"
| "forms_of (FormNode fm # ns) = fm # forms_of ns"
| "forms_of (LooseNode f # ns) = forms_of ns"

fun findStandaloneFields :: "node list \<Rightarrow> control list" where
  "findStandaloneFields [] = []"
| "findStandaloneFields (FormNode fm # ns) = findStandaloneFields ns"
| "findStandaloneFields (LooseNode f # ns) = f # findStandaloneFields ns"


fun show_nat :: "nat \<Rightarrow> string" where
  "show_nat n =
     (if n < 10 then [''0123456789'' ! n]
      else show_nat (n div 10) @ [''0123456789'' ! (n mod 10)])"

record formData =
  fm_id :: string
  fm_fields :: "fieldData list"

definition analyzeForm :: "settings \<Rightarrow> form_el \<Rightarrow> nat \<Rightarrow> formData" where
  "analyzeForm cfg fm index =
     \<lparr> fm_id = (if form_id fm \<noteq> [] then form_id fm else ''form-'' @ show_nat index),
       fm_fields = List.map_filter (analyzeField cfg) (form_controls fm) \<rparr>"

definition scanForms_silent :: "settings \<Rightarrow> node list \<Rightarrow> formData list \<times> fieldData list" where
  "scanForms_silent cfg doc =
     (let analysed = filter (\<lambda>fd. fm_fields fd \<noteq> [])
                       (map (\<lambda>(fm, i). analyzeForm cfg fm i)
                            (zip (forms_of doc) [0..<length (forms_of doc)]));
          standaloneAnalyzed = List.map_filter (analyzeField cfg) (findStandaloneFields doc);
          detectedForms = analysed
            @ (if standaloneAnalyzed \<noteq> []
               then [\<lparr> fm_id = ''standalone'', fm_fields = standaloneAnalyzed \<rparr>] else []);
          detectedFields = concat (map fm_fields analysed) @ standaloneAnalyzed in
      (detectedForms, detectedFields))"

section \<open>Filling\<close>

record fill_options =
  opt_visualFeedback :: "bool option"
  opt_skipHidden :: "bool option"
  opt_fillDelay :: "int option"
  opt_enabledFieldTypes :: "(string \<rightharpoonup> bool) option"

record merged_options =
  mo_visualFeedback :: bool
  mo_skipHidden :: "bool option"
  mo_skipHiddenFields :: bool
  mo_fillDelay :: int
  mo_enabledFieldTypes :: "string \<rightharpoonup> bool"

definition merge_options :: "settings \<Rightarrow> fill_options \<Rightarrow> merged_options" where
  "merge_options cfg opts =
     \<lparr> mo_visualFeedback = (case opt_visualFeedback opts of Some b \<Rightarrow> b | None \<Rightarrow> False),
       mo_skipHidden = opt_skipHidden opts,
       mo_skipHiddenFields = skipHiddenFields cfg,
       mo_fillDelay = (case opt_fillDelay opts of Some d \<Rightarrow> d | None \<Rightarrow> fillDelay cfg),
       mo_enabledFieldTypes =
         (case opt_enabledFieldTypes opts of Some m \<Rightarrow> m | None \<Rightarrow> enabledFieldTypes cfg) \<rparr>"

definition addVisualFeedback :: "control \<Rightarrow> control" where
  "addVisualFeedback f = f\<lparr>el_outline := ''2px solid #4CAF50'', el_backgroundColor := ''#e8f5e8''\<rparr>"

text \<open>
  \<open>fillField\<close> returns the control as the call leaves it and, when the call throws, the
  message of the exception.  The highlight is removed by a timer one second later,
  outside the call.

  The loop of \<open>fillForms\<close> runs over the inventory of the silent scan.  Each entry
  carries its control, so every entry stands for a control of its own (forms do not
  nest).  The platform is given per iteration: \<open>wd_step w i\<close> is what the \<open>i\<close>-th
  iteration observes.  \<open>sent\<close> collects the progress values that
  \<open>chrome.runtime.sendMessage\<close> accepted, \<open>written\<close> the controls as the loop leaves
  them.  The pacing delay changes no state.  Nothing outside the per-field \<open>try\<close> raises
  in this model, so the outer \<open>catch\<close>, which returns \<open>FillFailure\<close>, is never taken.
\<close>

definition fillField :: "platform \<Rightarrow> merged_options \<Rightarrow> fieldData \<Rightarrow> control \<times> string option" where
  "fillField p options fd =
     (let field0 = fd_element fd;
          fieldType = fd_detectedType fd;
          fakeData = applyConstraints p field0 (generateFakeData p fieldType (Some field0)) fieldType;
          field = (if mo_visualFeedback options then addVisualFeedback field0 else field0) in
      if el_type field = ''checkbox''
      then
        (if el_ant_wrapper field \<or> ''ant-checkbox-input'' \<in> set (el_classList field)
         then (field\<lparr>el_checked := truthy fakeData,
                      el_ant_span_checked :=
                        (case el_ant_span_checked field of
                           None \<Rightarrow> None | Some _ \<Rightarrow> Some (truthy fakeData))\<rparr>, None)
         else (field\<lparr>el_checked := truthy fakeData\<rparr>, None))
      else if el_type field = ''radio''
      then (if truthy fakeData then (field\<lparr>el_checked := True\<rparr>, None) else (field, None))
      else if el_type field = ''select-one'' \<or> el_type field = ''select-multiple''
      then (if truthy fakeData
            then (field\<lparr>el_options := select_first (to_str p fakeData) (el_options field)\<rparr>, None)
            else (field, None))
      else
        (case fakeData of
           VBool _ \<Rightarrow> (field, None)
         | VArr _ \<Rightarrow> (field, None)
         | VUndef \<Rightarrow> (field, None)
         | _ \<Rightarrow>
            let newValue = to_str p fakeData;
                tag = toLowerCase (el_tagName field);
                first = (if tag = ''textarea'' \<or> tag = ''input'' then set_value field newValue
                         else assign_value field newValue) in
            (case first of
               Inr field' \<Rightarrow> (field', None)
             | Inl _ \<Rightarrow> (case assign_value field newValue of
                           Inr field' \<Rightarrow> (field', None)
                         | Inl e \<Rightarrow> (field, Some e)))))"

definition math_round :: "real \<Rightarrow> int" where
  "math_round x = \<lfloor>x + 1 / 2\<rfloor>"

record fill_state =
  processedFields :: nat
  fieldsProcessed :: nat
  fieldsSkipped :: nat
  errors :: "(string \<times> string) list"
  sent :: "int list"
  written :: "control list"

definition fill_step ::
  "platform \<Rightarrow> settings \<Rightarrow> merged_options \<Rightarrow> nat \<Rightarrow> fieldData \<Rightarrow> fill_state \<Rightarrow> fill_state" where
  "fill_step p cfg fillOptions totalFields fd st =
     (if \<not> isFieldFillable cfg (fd_element fd) \<or> \<not> isFieldEmpty (fd_element fd)
      then st\<lparr>fieldsSkipped := fieldsSkipped st + 1, written := written st @ [fd_element fd]\<rparr>
      else
        (case fillField p fillOptions fd of
           (field', Some e) \<Rightarrow>
             st\<lparr>errors := errors st @ [(fd_name fd, e)], written := written st @ [field']\<rparr>
         | (field', None) \<Rightarrow>
             let st1 = st\<lparr>processedFields := processedFields st + 1,
                          fieldsProcessed := fieldsProcessed st + 1,
                          written := written st @ [field']\<rparr>;
                 progress = math_round (real (processedFields st1) / real totalFields * 100) in
             (case pf_send_error p of
                Some e \<Rightarrow> st1\<lparr>errors := errors st1 @ [(fd_name fd, e)]\<rparr>
              | None \<Rightarrow> st1\<lparr>sent := sent st1 @ [progress]\<rparr>)))"

fun fillLoop ::
  "(nat \<Rightarrow> platform) \<Rightarrow> settings \<Rightarrow> merged_options \<Rightarrow> nat \<Rightarrow> nat \<Rightarrow> fieldData list
     \<Rightarrow> fill_state \<Rightarrow> fill_state" where
  "fillLoop w cfg fillOptions totalFields i [] st = st"
| "fillLoop w cfg fillOptions totalFields i (fd # rest) st =
     fillLoop w cfg fillOptions totalFields (Suc i) rest
       (fill_step (w i) cfg fillOptions totalFields fd st)"

record fill_summary =
  sm_fieldsProcessed :: nat
  sm_fieldsSkipped :: nat
  sm_duration :: int
  sm_errors :: "(string \<times> string) list"

datatype fill_result = FillSuccess fill_summary | FillFailure string

record world =
  wd_step :: "nat \<Rightarrow> platform"
  wd_start :: int
  wd_end :: int

definition count_fillable :: "settings \<Rightarrow> fieldData list \<Rightarrow> nat" where
  "count_fillable cfg fds =
     length (filter (\<lambda>fd. isFieldFillable cfg (fd_element fd) \<and> isFieldEmpty (fd_element fd)) fds)"

definition init_state :: fill_state where
  "init_state = \<lparr> processedFields = 0, fieldsProcessed = 0, fieldsSkipped = 0, errors = [],
                  sent = [], written = [] \<rparr>"

definition fillForms ::
  "world \<Rightarrow> settings \<Rightarrow> fill_options \<Rightarrow> node list \<Rightarrow> fill_result \<times> int list \<times> control list" where
  "fillForms w cfg options doc =
     (let fillOptions = merge_options cfg options;
          detectedFields = snd (scanForms_silent cfg doc);
          totalFields = count_fillable cfg detectedFields in
      if totalFields = 0
      then (FillSuccess \<lparr> sm_fieldsProcessed = 0, sm_fieldsSkipped = length detectedFields,
                           sm_duration = wd_end w - wd_start w, sm_errors = [] \<rparr>,
            [], map fd_element detectedFields)
      else
        let st = fillLoop (wd_step w) cfg fillOptions totalFields 0 detectedFields init_state in
        (FillSuccess \<lparr> sm_fieldsProcessed = processedFields st,
                        sm_fieldsSkipped = fieldsSkipped st,
                        sm_duration = wd_end w - wd_start w, sm_errors = errors st \<rparr>,
         sent st, written st))"

section \<open>Clearing\<close>






datatype clear_result = ClearSuccess nat | ClearFailure string


section \<open>Example controls, documents and platforms\<close>

text \<open>
  Concrete inputs at which the theorems below are instantiated.  The example platform
  has no \<open>window.faker\<close>, draws \<open>0\<close> from \<open>Math.random\<close>, and gives the built-in
  conversions on the arguments the examples use: \<open>Number\<close> on blank strings and on
  unsigned decimal integers, \<open>String\<close> on integers.
\<close>

definition show_int :: "int \<Rightarrow> string" where
  "show_int i = (if i < 0 then CHR ''-'' # show_nat (nat (- i)) else show_nat (nat i))"

definition demo_Number :: "string \<Rightarrow> jsnum" where
  "demo_Number s =
     (let t = trim s in
      if t = [] then Fin 0
      else if list_all is_digit t then Fin (real (dec_value t))
      else NaN)"

definition demo_String :: "real \<Rightarrow> string" where
  "demo_String r = show_int \<lfloor>r\<rfloor>"

definition offline_platform :: platform where
  "offline_platform =
     \<lparr> pf_faker = None, pf_random = (\<lambda>k. 0), pf_today_iso = ''2025-01-15T10:30:00.000Z'',
       pf_Number = demo_Number, pf_String = demo_String, pf_base36 = (\<lambda>r. ''0''),
       pf_date_ms = (\<lambda>s. None), pf_iso_of_ms = (\<lambda>ms. []), pf_send_error = None \<rparr>"

definition quiet_world :: world where
  "quiet_world = \<lparr> wd_step = (\<lambda>i. offline_platform), wd_start = 0, wd_end = 5 \<rparr>"

definition no_options :: fill_options where
  "no_options = \<lparr> opt_visualFeedback = None, opt_skipHidden = None, opt_fillDelay = None,
                   opt_enabledFieldTypes = None \<rparr>"

definition blank_control :: control where
  "blank_control =
     \<lparr> el_tagName = ''INPUT'', el_type = ''text'', el_name = [], el_id = [],
       el_placeholder = [], el_autocomplete = [], el_className = [], el_classList = [],
       el_value = [], el_checked = False, el_disabled = False, el_readOnly = False,
       el_required = False, el_pattern = [], el_no_autofill = False,
       el_maxlength_attr = None, el_maxLength = - 1, el_min = Some [], el_max = Some [],
       el_options = [], el_display = ''inline-block'', el_visibility = ''visible'',
       el_offsetParent_null = False, el_label_for = None, el_parent_label = None,
       el_prev_sibling = None, el_parent_limit = None, el_ant_wrapper = False,
       el_ant_span_checked = None, el_outline = [], el_backgroundColor = [] \<rparr>"





definition code_input :: control where
  "code_input = blank_control\<lparr>el_name := ''code'', el_maxlength_attr := Some ''5'',
                              el_maxLength := 5\<rparr>"



definition nick_input :: control where
  "nick_input = blank_control\<lparr>el_name := ''nickname''\<rparr>"

definition nick_doc :: "node list" where
  "nick_doc = [FormNode \<lparr> form_id = ''f'', form_controls = [nick_input] \<rparr>]"




section \<open>Vocabulary of the statements\<close>



text \<open>
  \<open>text_control\<close> is a text-like control as the DOM has it: a textarea, whose type is
  \<open>textarea\<close>, or an input of type text, email, url, password, search or tel.
  \<open>eligible_options\<close> are the options of a select whose value and label are both
  non-blank, that is, non-empty once surrounding white space is trimmed.
\<close>

definition text_control :: "control \<Rightarrow> bool" where
  "text_control f =
     ((toLowerCase (el_tagName f) = ''textarea'' \<and> el_type f = ''textarea'')
      \<or> (toLowerCase (el_tagName f) = ''input''
          \<and> el_type f \<in> set [''text'', ''email'', ''url'', ''password'', ''search'', ''tel'']))"




text \<open>
  \<open>candidate\<close> is the test both passes of \<open>fillForms\<close> apply to an inventory entry:
  fillable and empty.  \<open>percent n k\<close> is the progress value sent after the \<open>k\<close>-th
  successful fill of a session with \<open>n\<close> candidates.
\<close>

definition candidate :: "settings \<Rightarrow> fieldData \<Rightarrow> bool" where
  "candidate cfg fd = (isFieldFillable cfg (fd_element fd) \<and> isFieldEmpty (fd_element fd))"

definition percent :: "nat \<Rightarrow> nat \<Rightarrow> int" where
  "percent n k = math_round (real k / real n * 100)"



definition hidden_doc :: "node list" where
  "hidden_doc = [FormNode \<lparr> form_id = ''f'', form_controls = [nick_input\<lparr>el_display := ''none''\<rparr>] \<rparr>]"

definition unsent_world :: world where
  "unsent_world =
     \<lparr> wd_step = (\<lambda>i. offline_platform\<lparr>pf_send_error := Some ''Extension context invalidated.''\<rparr>),
       wd_start = 0, wd_end = 5 \<rparr>"






section \<open>Properties of the classifier\<close>












section \<open>Date fields\<close>

lemma isFieldFillable_date: "detectFieldType f = ''date'' \<Longrightarrow> \<not> isFieldFillable cfg f"
  by (simp add: isFieldFillable_def Let_def)

lemma generateFakeData_date_with_faker:
  "pf_faker p = Some fk \<Longrightarrow> generateFakeData p ''date'' fo = VStr []"
  by (simp add: generateFakeData_def generate_try_def caught_def)

lemma getFallbackData_date:
  "getFallbackData p ''date'' =
     (if takeWhile (\<lambda>c. c \<noteq> CHR ''T'') (pf_today_iso p) \<noteq> []
      then VStr (takeWhile (\<lambda>c. c \<noteq> CHR ''T'') (pf_today_iso p)) else VStr ''Sample Data'')"
  by (simp add: getFallbackData_def Let_def truthy_def)

lemma generateFakeData_date_without_faker:
  "pf_faker p = None \<Longrightarrow> generateFakeData p ''date'' fo \<noteq> VStr []"
  by (simp add: generateFakeData_def getFallbackData_date)


section \<open>Constraints: maximum length and numeric range\<close>

lemma text_control_like: "text_control f \<Longrightarrow> text_like f"
  by (auto simp: text_control_def text_like_def)

lemma text_control_type:
  "text_control f \<Longrightarrow> el_type f \<noteq> ''number'' \<and> el_type f \<noteq> ''date''"
  by (auto simp: text_control_def)

lemma digit_not_space: "is_digit c \<Longrightarrow> \<not> is_space c \<and> c \<noteq> CHR ''-'' \<and> c \<noteq> CHR ''+''"
  by (auto simp: is_digit_def is_space_def)

lemma digit_char:
  assumes "(k::nat) < 10"
  shows "is_digit (''0123456789'' ! k) \<and> digit_val (''0123456789'' ! k) = k"
proof -
  from assms have "k = 0 \<or> k = 1 \<or> k = 2 \<or> k = 3 \<or> k = 4 \<or> k = 5 \<or> k = 6 \<or> k = 7
                   \<or> k = 8 \<or> k = 9" by arith
  then show ?thesis
    by (elim disjE) (simp_all add: is_digit_def digit_val_def)
qed

lemma dec_value_snoc: "dec_value (ds @ [c]) = 10 * dec_value ds + digit_val c"
  by (simp add: dec_value_def)

lemma show_nat_digits: "list_all is_digit (show_nat n) \<and> show_nat n \<noteq> [] \<and> dec_value (show_nat n) = n"
proof (induction n rule: show_nat.induct)
  case (1 n)
  show ?case
  proof (cases "n < 10")
    case True
    then have "show_nat n = [''0123456789'' ! n]" by (subst show_nat.simps) simp
    with digit_char[OF True] show ?thesis by (simp add: dec_value_def)
  next
    case False
    then have s: "show_nat n = show_nat (n div 10) @ [''0123456789'' ! (n mod 10)]"
      by (subst show_nat.simps) simp
    have m: "n mod 10 < 10" by simp
    from "1.IH"[OF False] digit_char[OF m] show ?thesis
      unfolding s by (simp add: dec_value_snoc)
  qed
qed

lemma parseInt_digits:
  assumes "ds \<noteq> []" and "list_all is_digit ds"
  shows "parseInt ds = Some (int (dec_value ds))"
proof -
  from assms obtain c cs where ds: "ds = c # cs" by (cases ds) auto
  with assms have c: "is_digit c" by simp
  have tw: "takeWhile is_digit ds = ds" using assms(2) by (simp add: list_all_iff)
  have dw: "dropWhile is_space ds = ds" using digit_not_space[OF c] by (simp add: ds)
  show ?thesis
    unfolding parseInt_def dw Let_def
    using digit_not_space[OF c] tw assms(1) by (simp add: ds)
qed

lemma parseInt_show_nat: "parseInt (show_nat n) = Some (int n)"
  using parseInt_digits[of "show_nat n"] show_nat_digits[of n] by simp

text \<open>
  Claim C6.  For a text-like control whose maxlength attribute reads as the integer
  \<open>L > 0\<close>, \<open>applyConstraints\<close> maps every string to its first \<open>L\<close> characters, so the
  output has length at most \<open>L\<close>.  An attribute written as the decimal numeral of
  \<open>L\<close> reads as \<open>L\<close> (lemma \<open>parseInt_show_nat\<close>).
\<close>

theorem applyConstraints_maxlength:
  assumes tc: "text_control f" and a: "el_maxlength_attr f = Some a"
    and L: "parseInt a = Some L" and pos: "0 < L"
  shows "applyConstraints p f (VStr s) k = VStr (take (nat L) s)
         \<and> int (length (take (nat L) s)) \<le> L"
proof -
  have ne: "a \<noteq> []" using L by (auto simp: parseInt_def Let_def)
  have len: "constrain_length f (VStr s) = VStr (take (nat L) s)"
    using text_control_like[OF tc] a L pos ne
    by (simp add: constrain_length_def Let_def)
  have num: "constrain_number p f (VStr (take (nat L) s)) = VStr (take (nat L) s)"
    using text_control_type[OF tc] by (simp add: constrain_number_def)
  have dat: "constrain_date p f (VStr (take (nat L) s)) = VStr (take (nat L) s)"
    using text_control_type[OF tc] by (simp add: constrain_date_def)
  have "applyConstraints p f (VStr s) k = VStr (take (nat L) s)"
    by (simp add: applyConstraints_def len num dat)
  moreover have "int (length (take (nat L) s)) \<le> L" using pos by simp
  ultimately show ?thesis by simp
qed

text \<open>
  The hypotheses of C6 hold at a text input with \<open>maxlength="5"\<close>, where an
  eleven-character string is cut to five characters.
\<close>

theorem applyConstraints_maxlength_witness:
  "text_control code_input \<and> el_maxlength_attr code_input = Some ''5''
   \<and> parseInt ''5'' = Some 5 \<and> (0::int) < 5
   \<and> applyConstraints offline_platform code_input (VStr ''Sample Text'') ''text'' = VStr ''Sampl''"
proof -
  have h1: "text_control code_input" by code_simp
  have h2: "el_maxlength_attr code_input = Some ''5''" by code_simp
  have h3: "parseInt ''5'' = Some 5" by code_simp
  have h4: "(0::int) < 5" by simp
  from applyConstraints_maxlength[OF h1 h2 h3 h4, of offline_platform "''Sample Text''" "''text''"]
  have "applyConstraints offline_platform code_input (VStr ''Sample Text'') ''text'' = VStr ''Sampl''"
    by simp
  with h1 h2 h3 h4 show ?thesis by blast
qed




section \<open>Choosing an option of a select\<close>












section \<open>Clearing twice\<close>

lemma select_first_values: "map opt_value (select_first v xs) = map opt_value xs"
  by (induction xs) (simp_all add: comp_def)



lemma select_first_Nil_iff: "select_first v xs = [] \<longleftrightarrow> xs = []"
  by (cases xs) simp_all

















section \<open>The fill loop\<close>


lemma step_skip:
  assumes "\<not> candidate cfg fd"
  shows "fill_step p cfg fo N fd st =
         st\<lparr>fieldsSkipped := fieldsSkipped st + 1, written := written st @ [fd_element fd]\<rparr>"
  using assms by (auto simp: fill_step_def candidate_def)

lemma step_error:
  assumes "candidate cfg fd" and "fillField p fo fd = (g, Some e)"
  shows "fill_step p cfg fo N fd st =
         st\<lparr>errors := errors st @ [(fd_name fd, e)], written := written st @ [g]\<rparr>"
  using assms by (simp add: fill_step_def candidate_def)

lemma step_sent:
  assumes "candidate cfg fd" and "fillField p fo fd = (g, None)" and "pf_send_error p = None"
  shows "fill_step p cfg fo N fd st =
         st\<lparr>processedFields := processedFields st + 1,
            fieldsProcessed := fieldsProcessed st + 1,
            written := written st @ [g],
            sent := sent st @ [percent N (processedFields st + 1)]\<rparr>"
  using assms by (simp add: fill_step_def candidate_def percent_def Let_def)


lemma step_cases:
  obtains (skip) "\<not> candidate cfg fd"
  | (error) g e where "candidate cfg fd" "fillField p fo fd = (g, Some e)"
  | (sent) g where "candidate cfg fd" "fillField p fo fd = (g, None)" "pf_send_error p = None"
  | (unsent) g e where "candidate cfg fd" "fillField p fo fd = (g, None)" "pf_send_error p = Some e"
proof (cases "candidate cfg fd")
  case False
  then show ?thesis by (rule skip)
next
  case c: True
  obtain g r where fr: "fillField p fo fd = (g, r)" by (cases "fillField p fo fd")
  show ?thesis
  proof (cases r)
    case None
    show ?thesis
    proof (cases "pf_send_error p")
      case n: None
      from c fr None n show ?thesis by (auto intro: sent)
    next
      case (Some e)
      from c fr None Some show ?thesis by (auto intro: unsent)
    qed
  next
    case (Some e)
    from c fr Some show ?thesis by (auto intro: error)
  qed
qed








lemma percent_full: "0 < N \<Longrightarrow> percent N N = 100"
  by (simp add: percent_def math_round_def)










lemma fillForms_loop:
  assumes "0 < count_fillable cfg (snd (scanForms_silent cfg doc))"
  shows "fillForms W cfg opts doc =
         (let st = fillLoop (wd_step W) cfg (merge_options cfg opts)
                     (count_fillable cfg (snd (scanForms_silent cfg doc))) 0
                     (snd (scanForms_silent cfg doc)) init_state in
          (FillSuccess \<lparr> sm_fieldsProcessed = processedFields st,
                          sm_fieldsSkipped = fieldsSkipped st,
                          sm_duration = wd_end W - wd_start W, sm_errors = errors st \<rparr>,
           sent st, written st))"
  using assms by (simp add: fillForms_def Let_def)

lemma fillForms_none:
  assumes "count_fillable cfg (snd (scanForms_silent cfg doc)) = 0"
  shows "fillForms W cfg opts doc =
         (FillSuccess \<lparr> sm_fieldsProcessed = 0,
                         sm_fieldsSkipped = length (snd (scanForms_silent cfg doc)),
                         sm_duration = wd_end W - wd_start W, sm_errors = [] \<rparr>,
          [], map fd_element (snd (scanForms_silent cfg doc)))"
  using assms by (simp add: fillForms_def Let_def)


lemma init_fields:
  "processedFields init_state = 0" "fieldsProcessed init_state = 0" "fieldsSkipped init_state = 0"
  "errors init_state = []" "sent init_state = []" "written init_state = []"
  by (simp_all add: init_state_def)

lemma last_percent: "0 < N \<Longrightarrow> last (map (percent N) [1..<Suc N]) = 100"
  by (simp add: last_map percent_full)











lemma fillField_skipHidden:
  "fillField p (fo\<lparr>mo_skipHidden := b\<rparr>) fd = fillField p fo fd"
  by (simp add: fillField_def)

lemma fill_step_skipHidden:
  "fill_step p cfg (fo\<lparr>mo_skipHidden := b\<rparr>) N fd st = fill_step p cfg fo N fd st"
  by (simp add: fill_step_def fillField_skipHidden)

lemma fillLoop_skipHidden:
  "fillLoop w cfg (fo\<lparr>mo_skipHidden := b\<rparr>) N i fds st = fillLoop w cfg fo N i fds st"
  by (induction fds arbitrary: i st) (simp_all add: fill_step_skipHidden)

lemma merge_options_skipHidden:
  "merge_options cfg (opts\<lparr>opt_skipHidden := b\<rparr>) = (merge_options cfg opts)\<lparr>mo_skipHidden := b\<rparr>"
  by (simp add: merge_options_def)

lemma fillForms_ignores_skipHidden:
  "fillForms W cfg (opts\<lparr>opt_skipHidden := b\<rparr>) doc = fillForms W cfg opts doc"
  by (simp add: fillForms_def Let_def merge_options_skipHidden fillLoop_skipHidden)

text \<open>
  Claim C3 at the input where the code departs from it.  \<open>isFieldFillable\<close> reads
  \<open>skipHiddenFields\<close> of the stored settings and nothing reads \<open>skipHidden\<close> of the
  options (lemma \<open>fillForms_ignores_skipHidden\<close>).  With the stored setting on and the
  option \<open>skipHidden = false\<close>, a control hidden by \<open>display: none\<close> is still left out:
  nothing is processed and nothing is written.  With the stored setting off and the
  option \<open>skipHidden = true\<close>, the hidden control is filled.
\<close>

theorem skipHidden_option_ignored:
  "skipHiddenFields defaultSettings
   \<and> fillForms quiet_world defaultSettings (no_options\<lparr>opt_skipHidden := Some False\<rparr>) hidden_doc
     = (FillSuccess \<lparr> sm_fieldsProcessed = 0, sm_fieldsSkipped = 0, sm_duration = 5,
                       sm_errors = [] \<rparr>, [], [])
   \<and> map el_value (snd (snd (fillForms quiet_world (defaultSettings\<lparr>skipHiddenFields := False\<rparr>)
                                  (no_options\<lparr>opt_skipHidden := Some True\<rparr>) hidden_doc)))
     = [''Alex'']"
  by code_simp

lemma loop_counters:
  assumes "\<forall>j. pf_send_error (w j) = None"
  shows "processedFields (fillLoop w cfg fo N i fds st) + fieldsSkipped (fillLoop w cfg fo N i fds st)
           + length (errors (fillLoop w cfg fo N i fds st))
         = processedFields st + fieldsSkipped st + length (errors st) + length fds"
proof (induction fds arbitrary: i st)
  case Nil
  then show ?case by simp
next
  case (Cons fd fds)
  let ?st1 = "fill_step (w i) cfg fo N fd st"
  have n: "pf_send_error (w i) = None" using assms by simp
  have "processedFields ?st1 + fieldsSkipped ?st1 + length (errors ?st1)
        = processedFields st + fieldsSkipped st + length (errors st) + 1"
    by (rule step_cases[where cfg=cfg and fd=fd and p="w i" and fo=fo])
       (simp_all add: step_skip step_error step_sent n)
  with Cons.IH[of "Suc i" ?st1] show ?case by simp
qed

lemma fill_counters_partition:
  assumes "\<forall>j. pf_send_error (wd_step W j) = None"
    and "fst (fillForms W cfg opts doc) = FillSuccess sm"
  shows "sm_fieldsProcessed sm + sm_fieldsSkipped sm + length (sm_errors sm)
         = length (snd (scanForms_silent cfg doc))"
proof (cases "count_fillable cfg (snd (scanForms_silent cfg doc)) = 0")
  case True
  with assms(2) show ?thesis by (auto simp: fillForms_none)
next
  case False
  then have pos: "0 < count_fillable cfg (snd (scanForms_silent cfg doc))" by simp
  from loop_counters[OF assms(1), of cfg "merge_options cfg opts"
      "count_fillable cfg (snd (scanForms_silent cfg doc))" 0 "snd (scanForms_silent cfg doc)" init_state]
    assms(2)
  show ?thesis by (auto simp: fillForms_loop[OF pos] Let_def init_fields)
qed

text \<open>
  Claim C10 at the input where the code departs from it.  When no progress message
  raises, processed, skipped and errors add up to the size of the inventory (lemma
  \<open>fill_counters_partition\<close>).  When \<open>sendProgress\<close> raises after a successful fill,
  the field has already been counted as processed and is recorded as an error as well:
  for an inventory of one field the summary reports one processed field and one error.
\<close>

theorem fill_counters_double_count:
  "length (snd (scanForms_silent defaultSettings nick_doc)) = 1
   \<and> fst (fillForms unsent_world defaultSettings no_options nick_doc)
      = FillSuccess \<lparr> sm_fieldsProcessed = 1, sm_fieldsSkipped = 0, sm_duration = 5,
                       sm_errors = [(''nickname'', ''Extension context invalidated.'')] \<rparr>"
  by code_simp

end
